theory Spec2Isabelle
  imports Main
begin

section \<open>Conventions\<close>

text \<open>
  The controller is C++ for a bare-metal target with 32-bit \<^verbatim>\<open>int\<close> and
  \<^verbatim>\<open>unsigned\<close>. Values are HOL integers (\<open>int\<close>, and \<open>nat\<close> for the unsigned tick
  delta); where a result is reduced to the width of its field, the reduction is
  written out with \<open>wrap_int32\<close> and \<open>wrap_int64\<close>, the two's-complement value of
  the low 32 or 64 bits.
  \<^item> \<^verbatim>\<open>int op= unsigned\<close> (the remaining ticks and the measure ticks) is computed
    modulo \<open>2^32\<close> by the language and is modelled so; the 64-bit unsigned uptime
    is modulo \<open>2^64\<close>.
  \<^item> The sums of the heat phase (the three 32-bit sums of readings and the 64-bit
    energy of the period) and the addition in \<open>edit_add\<close> are reduced to the width
    of their field, as the target's arithmetic reduces them.
  \<^item> The other signed additions (the sample counter, the steady time, the energy
    total, the idle sums, the period added by \<open>start\<close>, the filters of the START
    handler) are on mathematical integers, so for them the model describes the
    executions in which the value stays inside the range of its field.
  The operator \<^verbatim>\<open>/\<close> on integers truncates towards zero (\<open>cdiv\<close>), unlike HOL's
  \<open>div\<close>. An array access outside the array and a division by zero are undefined
  in C++; both are explicit error results.
\<close>

datatype error = OutOfBounds | DivByZero

definition cdiv :: "int \<Rightarrow> int \<Rightarrow> int" where
  "cdiv a b = sgn a * sgn b * (\<bar>a\<bar> div \<bar>b\<bar>)"

definition wrap_int32 :: "int \<Rightarrow> int" where
  "wrap_int32 x = (x + 2147483648) mod 4294967296 - 2147483648"

definition wrap_int64 :: "int \<Rightarrow> int" where
  "wrap_int64 x = (x + 9223372036854775808) mod 18446744073709551616 - 9223372036854775808"

section \<open>preset.hpp: class Preset\<close>

definition PRESETS :: int where "PRESETS = 2"
definition NO_EDIT :: int where "NO_EDIT = - 1"
definition MIN_TEMPERATURE :: int where "MIN_TEMPERATURE = 20 * 1000"
definition MAX_TEMPERATURE :: int where "MAX_TEMPERATURE = 400 * 1000"
definition STANDBY_TEMPERATURE :: int where "STANDBY_TEMPERATURE = 0"

text \<open>
  The fields of the class. \<open>temperatures\<close> is the array \<^verbatim>\<open>int _temperatures[PRESETS]\<close>:
  a list that the operations keep at length \<open>PRESETS\<close>.
\<close>

record Preset =
  temperatures :: "int list"
  selected :: int
  edited :: int
  standby :: bool

text \<open>The member initialisers.\<close>

definition Preset_init :: Preset where
  "Preset_init =
     \<lparr>temperatures = [300 * 1000, 250 * 1000], selected = 0, edited = NO_EDIT,
      standby = True\<rparr>"

text \<open>The read \<^verbatim>\<open>_temperatures[i]\<close>; outside the array it is an error.\<close>

definition temperatures_at :: "Preset \<Rightarrow> int \<Rightarrow> error + int" where
  "temperatures_at p i =
     (if 0 \<le> i \<and> i < PRESETS then Inr (temperatures p ! nat i) else Inl OutOfBounds)"

definition set_standby :: "Preset \<Rightarrow> Preset" where
  "set_standby p = p\<lparr>standby := True\<rparr>"

definition is_standby :: "Preset \<Rightarrow> bool" where
  "is_standby p = standby p"

text \<open>
  \<^verbatim>\<open>if ((preset < 0) && (preset >= PRESETS)) return;\<close> The guard is written with
  \<^verbatim>\<open>&&\<close>, as in the source.
\<close>

definition select :: "Preset \<Rightarrow> int \<Rightarrow> Preset" where
  "select p i =
     (if i < 0 \<and> i \<ge> PRESETS then p else p\<lparr>selected := i, standby := False\<rparr>)"

definition edit_select :: "Preset \<Rightarrow> int \<Rightarrow> Preset" where
  "edit_select p i = (if i < 0 \<and> i \<ge> PRESETS then p else p\<lparr>edited := i\<rparr>)"

definition edit_end :: "Preset \<Rightarrow> Preset" where
  "edit_end p = p\<lparr>edited := NO_EDIT\<rparr>"

definition get_temperature :: "Preset \<Rightarrow> error + int" where
  "get_temperature p =
     (if standby p then Inr STANDBY_TEMPERATURE else temperatures_at p (selected p))"

definition get_preset :: "Preset \<Rightarrow> int \<Rightarrow> error + int" where
  "get_preset p i = temperatures_at p i"

definition get_selected :: "Preset \<Rightarrow> int" where
  "get_selected p = selected p"

definition get_edited :: "Preset \<Rightarrow> int" where
  "get_edited p = edited p"

definition is_editing :: "Preset \<Rightarrow> bool" where
  "is_editing p = (edited p \<noteq> NO_EDIT)"

definition is_editing_preset :: "Preset \<Rightarrow> int \<Rightarrow> bool" where
  "is_editing_preset p i = (edited p = i)"

text \<open>
  \<open>edit_add\<close> adds to \<^verbatim>\<open>_temperatures[_edited]\<close>, a 32-bit addition, and then runs
  the two \<^verbatim>\<open>if\<close> statements one after the other. A cursor outside the array (and
  not \<open>NO_EDIT\<close>) makes the write an error.
\<close>

definition edit_add :: "Preset \<Rightarrow> int \<Rightarrow> error + Preset" where
  "edit_add p val =
     (if edited p = NO_EDIT then Inr p
      else if 0 \<le> edited p \<and> edited p < PRESETS then
        (let i = nat (edited p);
             t0 = wrap_int32 (temperatures p ! i + val);
             t1 = (if t0 < MIN_TEMPERATURE then MIN_TEMPERATURE else t0);
             t2 = (if t1 > MAX_TEMPERATURE then MAX_TEMPERATURE else t1)
         in Inr (p\<lparr>temperatures := (temperatures p)[i := t2]\<rparr>))
      else Inl OutOfBounds)"

section \<open>The collaborators of the engine\<close>

text \<open>
  The ADC driver, the heater driver, the clock constant and the PID controller are
  used by heating.hpp and are not part of these sources. The engine is therefore
  parameterised over them.
  \<^item> \<open>board::adc\<close>: every call of \<open>process\<close> is given the answers the driver
    returns during that call, as an \<open>adc_reading\<close>; the measurements the engine
    starts are logged in the field \<open>adc_requests\<close>, oldest first.
  \<^item> \<open>board::heater\<close>: the field \<open>heater\<close> is the output of the driver, set by
    \<open>on()\<close> and cleared by \<open>off()\<close>.
  \<^item> \<open>board::Clock::CORE_FREQ\<close>: the parameter \<open>cf\<close>, ticks per second.
  \<^item> \<open>lib::Pid\<close>: a state of any type \<open>'p\<close> with its three operations, \<open>'p pid_ops\<close>.
\<close>

record adc_reading =
  measure_is_done :: bool
  get_cpu_voltage :: int
  get_supply_voltage :: int
  get_pen_current :: int
  get_cpu_temperature :: int
  get_pen_temperature :: int
  is_pen_sensor_ok :: bool

datatype adc_request = MeasureHeatStart | MeasureIdleStart

record 'p pid_ops =
  pid_set_constants :: "'p \<Rightarrow> int \<Rightarrow> int \<Rightarrow> int \<Rightarrow> int \<Rightarrow> int \<Rightarrow> 'p"
  pid_reset :: "'p \<Rightarrow> 'p"
  pid_process :: "'p \<Rightarrow> int \<Rightarrow> int \<Rightarrow> int \<times> 'p"

section \<open>heating.hpp: class Heating\<close>

definition PERIOD_TIME_MS :: int where "PERIOD_TIME_MS = 150"
definition STANDBY_TIME_MS :: int where "STANDBY_TIME_MS = 30000"
definition PERIOD_TIME_MIN_MS :: int where "PERIOD_TIME_MIN_MS = 50"
definition PID_K_PROPORTIONAL :: int where "PID_K_PROPORTIONAL = 700"
definition PID_K_INTEGRAL :: int where "PID_K_INTEGRAL = 200"
definition PID_K_DERIVATE :: int where "PID_K_DERIVATE = 100"
definition HEATING_POWER_MAX :: int where "HEATING_POWER_MAX = 40 * 1000"
definition IDLE_MIN_TIME_MS :: int where "IDLE_MIN_TIME_MS = 8"
definition STABILIZE_TIME_MS :: int where "STABILIZE_TIME_MS = 2"
definition HEATING_MIN_POWER_MW :: int where "HEATING_MIN_POWER_MW = 100"
definition PEN_MAX_CURRENT_MA :: int where "PEN_MAX_CURRENT_MA = 6000"
definition PEN_RESISTANCE_SHORTED :: int where "PEN_RESISTANCE_SHORTED = 500"
definition PEN_RESISTANCE_MIN :: int where "PEN_RESISTANCE_MIN = 1500"
definition PEN_RESISTANCE_MAX :: int where "PEN_RESISTANCE_MAX = 2500"
definition PEN_RESISTANCE_BROKEN :: int where "PEN_RESISTANCE_BROKEN = 100000"

datatype HeatingElementStatus =
  Element_UNKNOWN | Element_OK | Element_SHORTED | Element_LOW_RESISTANCE
  | Element_HIGH_RESISTANCE | Element_BROKEN

datatype PenSensorStatus = Sensor_UNKNOWN | Sensor_OK | Sensor_BROKEN | Sensor_SHORTED

datatype State = STOP | START | HEATING | STABILIZE | IDLE

record 'p Heating =
  preset :: Preset
  pid :: 'p
  uptime_ticks :: int
  power_uwpt :: int
  requested_power_uwpt :: int
  energy_uwt :: int
  steady_ticks :: int
  period_ticks :: int
  remaining_ticks :: int
  measure_ticks :: int
  measurements_count :: int
  requested_power_mw :: int
  cpu_voltage_mv_heat :: int
  cpu_voltage_mv_idle :: int
  supply_voltage_mv_heat :: int
  supply_voltage_mv_idle :: int
  supply_voltage_mv_drop :: int
  pen_current_ma_heat :: int
  pen_current_ma_idle :: int
  pen_resistance_mo :: int
  pen_temperature_mc :: int
  cpu_temperature_mc :: int
  average_requested_power :: int
  average_requested_power_short :: int
  state :: State
  heating_element_status :: HeatingElementStatus
  pen_sensor_status :: PenSensorStatus
  heater :: bool
  adc_requests :: "adc_request list"

text \<open>
  The object as its member initialisers leave it, around a default-constructed PID
  \<open>p0\<close>, with the heater output off and no measurement requested yet.
\<close>

definition Heating_init :: "'p \<Rightarrow> 'p Heating" where
  "Heating_init p0 =
     \<lparr>preset = Preset_init, pid = p0, uptime_ticks = 0, power_uwpt = 0,
      requested_power_uwpt = 0, energy_uwt = 0, steady_ticks = 0, period_ticks = 0,
      remaining_ticks = 0, measure_ticks = 0, measurements_count = 0,
      requested_power_mw = 0, cpu_voltage_mv_heat = 0, cpu_voltage_mv_idle = 0,
      supply_voltage_mv_heat = 0, supply_voltage_mv_idle = 0, supply_voltage_mv_drop = 0,
      pen_current_ma_heat = 0, pen_current_ma_idle = 0, pen_resistance_mo = 0,
      pen_temperature_mc = 0, cpu_temperature_mc = 0, average_requested_power = 0,
      average_requested_power_short = 0, state = STOP,
      heating_element_status = Element_UNKNOWN, pen_sensor_status = Sensor_UNKNOWN,
      heater = False, adc_requests = []\<rparr>"

definition init :: "'p pid_ops \<Rightarrow> 'p Heating \<Rightarrow> 'p Heating" where
  "init P s =
     s\<lparr>pid := pid_set_constants P (pid s) PID_K_PROPORTIONAL PID_K_INTEGRAL PID_K_DERIVATE
             (cdiv 1000 PERIOD_TIME_MS) HEATING_POWER_MAX\<rparr>"

subsection \<open>Getters\<close>

definition get_requested_power_mw :: "'p Heating \<Rightarrow> int" where
  "get_requested_power_mw s = requested_power_mw s"

definition get_pen_resistance_mo :: "'p Heating \<Rightarrow> int" where
  "get_pen_resistance_mo s = pen_resistance_mo s"

definition get_energy_mwh :: "int \<Rightarrow> 'p Heating \<Rightarrow> int" where
  "get_energy_mwh cf s = cdiv (cdiv (cdiv (energy_uwt s) cf) 1000) 3600"

definition get_steady_ms :: "int \<Rightarrow> 'p Heating \<Rightarrow> int" where
  "get_steady_ms cf s = cdiv (steady_ticks s) (cdiv cf 1000)"

definition get_real_pen_temperature_mc :: "'p Heating \<Rightarrow> int" where
  "get_real_pen_temperature_mc s = cpu_temperature_mc s + pen_temperature_mc s"

definition getHeatingElementStatus :: "'p Heating \<Rightarrow> HeatingElementStatus" where
  "getHeatingElementStatus s = heating_element_status s"

definition getPenSensorStatus :: "'p Heating \<Rightarrow> PenSensorStatus" where
  "getPenSensorStatus s = pen_sensor_status s"

definition ms2ticks :: "int \<Rightarrow> int \<Rightarrow> int" where
  "ms2ticks cf time_ms = cdiv (time_ms * cf) 1000"

definition ticks2ms :: "int \<Rightarrow> int \<Rightarrow> int" where
  "ticks2ms cf ticks = cdiv (ticks * 1000) cf"

subsection \<open>start\<close>

text \<open>
  The tail of \<open>start\<close>, from the assignment of \<^verbatim>\<open>_period_ticks\<close> on, for the power the
  first statement decided.
\<close>

definition start_period :: "int \<Rightarrow> int \<Rightarrow> 'p Heating \<Rightarrow> 'p Heating" where
  "start_period cf power_mw s =
     (let period = PERIOD_TIME_MS * cdiv cf 1000 in
      s\<lparr>period_ticks := period,
        remaining_ticks := remaining_ticks s + period,
        requested_power_mw := power_mw,
        requested_power_uwpt := power_mw * period * 1000,
        state := START\<rparr>)"

definition start :: "'p pid_ops \<Rightarrow> int \<Rightarrow> 'p Heating \<Rightarrow> error + 'p Heating" where
  "start P cf s =
     (if getPenSensorStatus s \<noteq> Sensor_OK then
        Inr (start_period cf 0 (s\<lparr>pid := pid_reset P (pid s)\<rparr>))
      else
        (case get_temperature (preset s) of
           Inl e \<Rightarrow> Inl e
         | Inr target \<Rightarrow>
             (case pid_process P (pid s) (get_real_pen_temperature_mc s) target of
                (power_mw, pid') \<Rightarrow> Inr (start_period cf power_mw (s\<lparr>pid := pid'\<rparr>)))))"

subsection \<open>The state handlers\<close>

definition state_stop :: "int \<Rightarrow> 'p Heating \<Rightarrow> 'p Heating" where
  "state_stop cf s =
     (let stop = (getPenSensorStatus s \<noteq> Sensor_OK);
          stop = (stop \<or> getHeatingElementStatus s = Element_SHORTED);
          stop = (stop \<or> getHeatingElementStatus s = Element_BROKEN);
          stop = (stop \<or> get_steady_ms cf s > STANDBY_TIME_MS)
      in if stop then s\<lparr>preset := set_standby (preset s)\<rparr> else s)"

definition state_start :: "'p Heating \<Rightarrow> 'p Heating" where
  "state_start s0 =
     (let s1 = s0\<lparr>measure_ticks := 0, measurements_count := 0, cpu_voltage_mv_heat := 0,
                supply_voltage_mv_heat := 0, pen_current_ma_heat := 0,
                pen_current_ma_idle := 0, power_uwpt := 0\<rparr>
      in if requested_power_mw s1 < HEATING_MIN_POWER_MW then
           s1\<lparr>adc_requests := adc_requests s1 @ [MeasureIdleStart],
              requested_power_mw := 0, requested_power_uwpt := 0, steady_ticks := 0,
              state := IDLE\<rparr>
         else
           (let short = cdiv (average_requested_power_short s1 * 2 + requested_power_mw s1) 3;
                avg = cdiv (average_requested_power s1 * 9 + requested_power_mw s1) 10;
                derivate_requested_power = short - avg;
                s2 = s1\<lparr>average_requested_power_short := short,
                        average_requested_power := avg\<rparr>;
                s3 = (if derivate_requested_power > 150 \<or> derivate_requested_power < - 200
                      then s2\<lparr>steady_ticks := 0\<rparr> else s2)
            in s3\<lparr>heater := True,
                 adc_requests := adc_requests s3 @ [MeasureHeatStart],
                 heating_element_status := Element_UNKNOWN,
                 pen_sensor_status := Sensor_UNKNOWN,
                 state := HEATING\<rparr>))"

text \<open>The chain of comparisons that ends the stop branch of the HEATING handler.\<close>

definition heating_element_status_of :: "int \<Rightarrow> HeatingElementStatus" where
  "heating_element_status_of r =
     (if r < PEN_RESISTANCE_SHORTED then Element_SHORTED
      else if r < PEN_RESISTANCE_MIN then Element_LOW_RESISTANCE
      else if r > PEN_RESISTANCE_BROKEN then Element_BROKEN
      else if r > PEN_RESISTANCE_MAX then Element_HIGH_RESISTANCE
      else Element_OK)"

text \<open>
  The three checks after a sample has been accumulated. The first divides by
  \<^verbatim>\<open>_measurements_count\<close>; the handler below reaches it only with a count other than 0.
\<close>

definition heating_stop :: "int \<Rightarrow> 'p Heating \<Rightarrow> bool" where
  "heating_stop cf s =
     (let stop = (cdiv (pen_current_ma_heat s) (measurements_count s) > PEN_MAX_CURRENT_MA);
          stop = (stop \<or> power_uwpt s > requested_power_uwpt s);
          stop = (stop \<or> remaining_ticks s < ms2ticks cf (STABILIZE_TIME_MS + IDLE_MIN_TIME_MS))
      in stop)"

text \<open>
  The stop branch. \<open>heater.off()\<close> is its first statement; \<open>heating_diagnostics\<close>
  is the rest of the branch: the energy total, the averages, the compensated pen
  current, the resistance, the voltage drop, the status and the next state.
\<close>

definition heating_diagnostics :: "'p Heating \<Rightarrow> 'p Heating" where
  "heating_diagnostics s1 =
     (let s2 = s1\<lparr>energy_uwt := energy_uwt s1 + power_uwpt s1,
                  cpu_voltage_mv_heat := cdiv (cpu_voltage_mv_heat s1) (measurements_count s1),
                  supply_voltage_mv_heat :=
                    cdiv (supply_voltage_mv_heat s1) (measurements_count s1),
                  pen_current_ma_heat := cdiv (pen_current_ma_heat s1) (measurements_count s1)\<rparr>;
          c0 = pen_current_ma_heat s2 - pen_current_ma_idle s2;
          c1 = (if c0 < 0 then c0 * (- 1) else c0);
          r = (if c1 > 10 then cdiv (supply_voltage_mv_heat s2 * 1000) c1 else 1000000000)
      in s2\<lparr>pen_current_ma_heat := c1,
            pen_resistance_mo := r,
            supply_voltage_mv_drop := supply_voltage_mv_heat s2 - supply_voltage_mv_idle s2,
            heating_element_status := heating_element_status_of r,
            state := STABILIZE\<rparr>)"

definition heating_finish :: "'p Heating \<Rightarrow> 'p Heating" where
  "heating_finish s0 = heating_diagnostics (s0\<lparr>heater := False\<rparr>)"

definition state_heating ::
    "int \<Rightarrow> nat \<Rightarrow> adc_reading \<Rightarrow> 'p Heating \<Rightarrow> error + 'p Heating" where
  "state_heating cf delta_ticks adc s0 =
     (let s1 = s0\<lparr>measure_ticks := wrap_int32 (measure_ticks s0 + int delta_ticks)\<rparr> in
      if \<not> measure_is_done adc then Inr s1
      else
        (let s2 = s1\<lparr>measurements_count := measurements_count s1 + 1,
                     cpu_voltage_mv_heat :=
                       wrap_int32 (cpu_voltage_mv_heat s1 + get_cpu_voltage adc),
                     supply_voltage_mv_heat :=
                       wrap_int32 (supply_voltage_mv_heat s1 + get_supply_voltage adc),
                     pen_current_ma_heat :=
                       wrap_int32 (pen_current_ma_heat s1 + get_pen_current adc),
                     power_uwpt :=
                       wrap_int64
                         (power_uwpt s1
                            + get_supply_voltage adc * get_pen_current adc * measure_ticks s1),
                     measure_ticks := 0\<rparr>
         in if measurements_count s2 = 0 then Inl DivByZero
            else if heating_stop cf s2 then Inr (heating_finish s2)
            else Inr (s2\<lparr>adc_requests := adc_requests s2 @ [MeasureHeatStart]\<rparr>)))"

definition state_stabilize :: "int \<Rightarrow> nat \<Rightarrow> 'p Heating \<Rightarrow> 'p Heating" where
  "state_stabilize cf delta_ticks s0 =
     (let s1 = s0\<lparr>measure_ticks := wrap_int32 (measure_ticks s0 + int delta_ticks)\<rparr> in
      if measure_ticks s1 < ms2ticks cf STABILIZE_TIME_MS then s1
      else s1\<lparr>adc_requests := adc_requests s1 @ [MeasureIdleStart],
              measure_ticks := 0, measurements_count := 0, cpu_voltage_mv_idle := 0,
              supply_voltage_mv_idle := 0, cpu_temperature_mc := 0,
              pen_temperature_mc := 0, state := IDLE\<rparr>)"

definition state_idle :: "adc_reading \<Rightarrow> 'p Heating \<Rightarrow> error + 'p Heating" where
  "state_idle adc s0 =
     (if \<not> measure_is_done adc then Inr s0
      else
        (let s1 = s0\<lparr>cpu_voltage_mv_idle := cpu_voltage_mv_idle s0 + get_cpu_voltage adc,
                     supply_voltage_mv_idle :=
                       supply_voltage_mv_idle s0 + get_supply_voltage adc,
                     pen_current_ma_idle := pen_current_ma_idle s0 + get_pen_current adc,
                     cpu_temperature_mc := cpu_temperature_mc s0 + get_cpu_temperature adc,
                     pen_temperature_mc := pen_temperature_mc s0 + get_pen_temperature adc,
                     measurements_count := measurements_count s0 + 1\<rparr>
         in if remaining_ticks s1 > 0 then
              Inr (s1\<lparr>adc_requests := adc_requests s1 @ [MeasureIdleStart]\<rparr>)
            else if measurements_count s1 = 0 then Inl DivByZero
            else
              (let n = measurements_count s1;
                   s2 = s1\<lparr>cpu_voltage_mv_idle := cdiv (cpu_voltage_mv_idle s1) n,
                           supply_voltage_mv_idle := cdiv (supply_voltage_mv_idle s1) n,
                           pen_current_ma_idle := cdiv (pen_current_ma_idle s1) n,
                           cpu_temperature_mc := cdiv (cpu_temperature_mc s1) n,
                           pen_temperature_mc := cdiv (pen_temperature_mc s1) n\<rparr>;
                   s3 = (if is_pen_sensor_ok adc then s2\<lparr>pen_sensor_status := Sensor_OK\<rparr>
                         else s2\<lparr>pen_sensor_status := Sensor_BROKEN,
                                 heating_element_status := Element_UNKNOWN\<rparr>)
               in Inr (s3\<lparr>state := STOP\<rparr>))))"

subsection \<open>process\<close>

text \<open>The three counters every call advances before it dispatches on the state.\<close>

definition advance :: "nat \<Rightarrow> 'p Heating \<Rightarrow> 'p Heating" where
  "advance delta_ticks s =
     s\<lparr>uptime_ticks := (uptime_ticks s + int delta_ticks) mod 18446744073709551616,
       remaining_ticks := wrap_int32 (remaining_ticks s - int delta_ticks),
       steady_ticks := steady_ticks s + int delta_ticks\<rparr>"

definition process ::
    "int \<Rightarrow> nat \<Rightarrow> adc_reading \<Rightarrow> 'p Heating \<Rightarrow> error + (bool \<times> 'p Heating)" where
  "process cf delta_ticks adc s0 =
     (let s = advance delta_ticks s0 in
      case state s of
        STOP \<Rightarrow> Inr (False, state_stop cf s)
      | START \<Rightarrow> Inr (True, state_start s)
      | HEATING \<Rightarrow>
          (case state_heating cf delta_ticks adc s of
             Inl e \<Rightarrow> Inl e | Inr s' \<Rightarrow> Inr (True, s'))
      | STABILIZE \<Rightarrow> Inr (True, state_stabilize cf delta_ticks s)
      | IDLE \<Rightarrow>
          (case state_idle adc s of Inl e \<Rightarrow> Inl e | Inr s' \<Rightarrow> Inr (True, s')))"

section \<open>Runs of the engine\<close>

text \<open>
  What the host and the user interface can do to the engine: the calls of \<open>init\<close>,
  \<open>start\<close> and \<open>process\<close>, and the calls on the preset that \<open>get_preset()\<close> hands out.
  A run executes a list of such calls and stops at the first error.
\<close>

datatype event =
  Call_init | Call_start | Call_process nat adc_reading
  | Ui_select int | Ui_edit_select int | Ui_edit_add int | Ui_edit_end | Ui_set_standby

fun step :: "'p pid_ops \<Rightarrow> int \<Rightarrow> event \<Rightarrow> 'p Heating \<Rightarrow> error + 'p Heating" where
  "step P cf Call_init s = Inr (init P s)"
| "step P cf Call_start s = start P cf s"
| "step P cf (Call_process delta_ticks adc) s =
     (case process cf delta_ticks adc s of Inl e \<Rightarrow> Inl e | Inr (running, s') \<Rightarrow> Inr s')"
| "step P cf (Ui_select i) s = Inr (s\<lparr>preset := select (preset s) i\<rparr>)"
| "step P cf (Ui_edit_select i) s = Inr (s\<lparr>preset := edit_select (preset s) i\<rparr>)"
| "step P cf (Ui_edit_add val) s =
     (case edit_add (preset s) val of Inl e \<Rightarrow> Inl e | Inr p \<Rightarrow> Inr (s\<lparr>preset := p\<rparr>))"
| "step P cf Ui_edit_end s = Inr (s\<lparr>preset := edit_end (preset s)\<rparr>)"
| "step P cf Ui_set_standby s = Inr (s\<lparr>preset := set_standby (preset s)\<rparr>)"

fun run :: "'p pid_ops \<Rightarrow> int \<Rightarrow> event list \<Rightarrow> 'p Heating \<Rightarrow> error + 'p Heating" where
  "run P cf [] s = Inr s"
| "run P cf (ev # evs) s =
     (case step P cf ev s of Inl e \<Rightarrow> Inl e | Inr s' \<Rightarrow> run P cf evs s')"

text \<open>
  A condition on a list of calls, checked along the run from the state \<open>s\<close>:
  no call of \<open>start\<close> arrives while the engine is in HEATING.
\<close>

fun start_outside_heating ::
    "'p pid_ops \<Rightarrow> int \<Rightarrow> event list \<Rightarrow> 'p Heating \<Rightarrow> bool" where
  "start_outside_heating P cf [] s = True"
| "start_outside_heating P cf (ev # evs) s =
     ((case ev of Call_start \<Rightarrow> state s \<noteq> HEATING | _ \<Rightarrow> True) \<and>
      (case step P cf ev s of
         Inl e \<Rightarrow> True | Inr s' \<Rightarrow> start_outside_heating P cf evs s'))"

section \<open>A PID controller for concrete runs\<close>

text \<open>
  Modelled from the spec: lib/pid.hpp (class \<open>lib::Pid\<close>) is not among the sources.
  The theorems about the engine hold for every \<open>'p pid_ops\<close>; this instance follows
  the specification's description of the controller and is used only to run the
  engine on concrete inputs.
\<close>

record Pid =
  pid_kp :: int
  pid_ki :: int
  pid_kd :: int
  pid_fs :: int
  pid_out_max :: int
  pid_integral :: int
  pid_prev_error :: int

text \<open>Modelled from the spec: a controller before \<open>set_constants\<close>, all fields zero.\<close>

definition Pid_default :: Pid where
  "Pid_default =
     \<lparr>pid_kp = 0, pid_ki = 0, pid_kd = 0, pid_fs = 0, pid_out_max = 0, pid_integral = 0,
      pid_prev_error = 0\<rparr>"

text \<open>Modelled from the spec: \<open>set_constants\<close> stores the constants and resets the accumulators.\<close>

definition Pid_set_constants :: "Pid \<Rightarrow> int \<Rightarrow> int \<Rightarrow> int \<Rightarrow> int \<Rightarrow> int \<Rightarrow> Pid" where
  "Pid_set_constants p kp ki kd fs out_max =
     \<lparr>pid_kp = kp, pid_ki = ki, pid_kd = kd, pid_fs = fs, pid_out_max = out_max,
      pid_integral = 0, pid_prev_error = 0\<rparr>"

text \<open>Modelled from the spec: \<open>reset\<close> zeroes the integral and the previous error.\<close>

definition Pid_reset :: "Pid \<Rightarrow> Pid" where
  "Pid_reset p = p\<lparr>pid_integral := 0, pid_prev_error := 0\<rparr>"

text \<open>
  Modelled from the spec: \<open>process\<close> with the error, the integral clamped so that
  \<open>Ki\<close> times the integral stays within the output bound, the derivative, the sum of
  the three terms at the gain scale 1000, and the output clamped between 0 and the bound.
\<close>

definition Pid_process :: "Pid \<Rightarrow> int \<Rightarrow> int \<Rightarrow> int \<times> Pid" where
  "Pid_process p measured setpoint =
     (let err = setpoint - measured;
          lim = cdiv (pid_out_max p) (pid_ki p);
          integral = max (- lim) (min lim (pid_integral p + cdiv err (pid_fs p)));
          derivative = (err - pid_prev_error p) * pid_fs p;
          u = cdiv (pid_kp p * err) 1000 + cdiv (pid_ki p * integral) 1000
                + cdiv (pid_kd p * derivative) 1000
      in (max 0 (min (pid_out_max p) u),
          p\<lparr>pid_integral := integral, pid_prev_error := err\<rparr>))"

text \<open>Modelled from the spec: the three operations as the engine's parameter.\<close>

definition spec_pid :: "Pid pid_ops" where
  "spec_pid =
     \<lparr>pid_set_constants = Pid_set_constants, pid_reset = Pid_reset,
      pid_process = Pid_process\<rparr>"

section \<open>Concrete inputs\<close>

text \<open>
  A simulated clock of 1 MHz, a 12 V supply, a cold junction at 25 degrees and a
  thermocouple that reads no difference. \<open>adc_idle\<close> is a completed sample with no pen
  current, \<open>adc_heat i\<close> a completed sample with the pen current \<open>i\<close>.
\<close>

definition sim_freq :: int where "sim_freq = 1000000"

definition adc_idle :: adc_reading where
  "adc_idle =
     \<lparr>measure_is_done = True, get_cpu_voltage = 3300, get_supply_voltage = 12000,
      get_pen_current = 0, get_cpu_temperature = 25000, get_pen_temperature = 0,
      is_pen_sensor_ok = True\<rparr>"

definition adc_heat :: "int \<Rightarrow> adc_reading" where
  "adc_heat i =
     \<lparr>measure_is_done = True, get_cpu_voltage = 3300, get_supply_voltage = 12000,
      get_pen_current = i, get_cpu_temperature = 25000, get_pen_temperature = 0,
      is_pen_sensor_ok = True\<rparr>"

text \<open>
  The first period after power-up: the user selects preset 0, the sensor is still
  unknown, so the period measures only and ends in STOP with the sensor found OK.
\<close>

definition first_period :: "event list" where
  "first_period =
     [Call_init, Ui_select 0, Call_start, Call_process 1000 adc_idle,
      Call_process 149000 adc_idle]"

text \<open>
  The second period up to the moment the heater is on: \<open>process\<close> returns false in
  STOP, the host calls \<open>start\<close>, the controller asks for full power, and the START
  handler enters HEATING.
\<close>

definition warm_up :: "event list" where
  "warm_up = first_period @ [Call_process 0 adc_idle, Call_start, Call_process 1000 adc_idle]"

text \<open>The state \<open>first_period\<close> ends in, and the state \<open>warm_up\<close> ends in.\<close>

definition first_period_end :: "Pid Heating" where
  "first_period_end =
     \<lparr>preset = \<lparr>temperatures = [300000, 250000], selected = 0, edited = - 1, standby = False\<rparr>,
      pid = \<lparr>pid_kp = 700, pid_ki = 200, pid_kd = 100, pid_fs = 6, pid_out_max = 40000,
             pid_integral = 0, pid_prev_error = 0\<rparr>,
      uptime_ticks = 150000, power_uwpt = 0, requested_power_uwpt = 0, energy_uwt = 0,
      steady_ticks = 149000, period_ticks = 150000, remaining_ticks = 0, measure_ticks = 0,
      measurements_count = 1, requested_power_mw = 0, cpu_voltage_mv_heat = 0,
      cpu_voltage_mv_idle = 3300, supply_voltage_mv_heat = 0, supply_voltage_mv_idle = 12000,
      supply_voltage_mv_drop = 0, pen_current_ma_heat = 0, pen_current_ma_idle = 0,
      pen_resistance_mo = 0, pen_temperature_mc = 0, cpu_temperature_mc = 25000,
      average_requested_power = 0, average_requested_power_short = 0, state = STOP,
      heating_element_status = Element_UNKNOWN, pen_sensor_status = Sensor_OK,
      heater = False, adc_requests = [MeasureIdleStart]\<rparr>"

definition heating_reached :: "Pid Heating" where
  "heating_reached =
     \<lparr>preset = \<lparr>temperatures = [300000, 250000], selected = 0, edited = - 1, standby = False\<rparr>,
      pid = \<lparr>pid_kp = 700, pid_ki = 200, pid_kd = 100, pid_fs = 6, pid_out_max = 40000,
             pid_integral = 200, pid_prev_error = 275000\<rparr>,
      uptime_ticks = 151000, power_uwpt = 0, requested_power_uwpt = 6000000000000,
      energy_uwt = 0, steady_ticks = 0, period_ticks = 150000, remaining_ticks = 149000,
      measure_ticks = 0, measurements_count = 0, requested_power_mw = 40000,
      cpu_voltage_mv_heat = 0, cpu_voltage_mv_idle = 3300, supply_voltage_mv_heat = 0,
      supply_voltage_mv_idle = 12000, supply_voltage_mv_drop = 0, pen_current_ma_heat = 0,
      pen_current_ma_idle = 0, pen_resistance_mo = 0, pen_temperature_mc = 0,
      cpu_temperature_mc = 25000, average_requested_power = 4000,
      average_requested_power_short = 13333, state = HEATING,
      heating_element_status = Element_UNKNOWN, pen_sensor_status = Sensor_UNKNOWN,
      heater = True, adc_requests = [MeasureIdleStart, MeasureHeatStart]\<rparr>"

text \<open>
  \<open>heating_reached\<close> after one more call of \<open>process\<close>, 145000 ticks later, with a
  completed sample of 6000 mA: the heat phase is over.
\<close>

definition heating_finished :: "Pid Heating" where
  "heating_finished =
     heating_reached\<lparr>uptime_ticks := 296000, remaining_ticks := 4000, steady_ticks := 145000,
       measurements_count := 1, cpu_voltage_mv_heat := 3300, supply_voltage_mv_heat := 12000,
       pen_current_ma_heat := 6000, power_uwpt := 10440000000000,
       energy_uwt := 10440000000000, pen_resistance_mo := 2000, supply_voltage_mv_drop := 0,
       heating_element_status := Element_OK, state := STABILIZE, heater := False\<rparr>"

text \<open>
  \<open>heating_reached\<close> after a call of \<open>process\<close> 100000 ticks later with a completed
  sample of 5000 mA instead: 12000 mV times 5000 mA times 100000 ticks is the
  requested energy exactly.
\<close>

definition on_target :: "Pid Heating" where
  "on_target =
     heating_reached\<lparr>uptime_ticks := 251000, remaining_ticks := 49000, steady_ticks := 100000,
       measurements_count := 1, cpu_voltage_mv_heat := 3300, supply_voltage_mv_heat := 12000,
       pen_current_ma_heat := 5000, power_uwpt := 6000000000000,
       adc_requests := [MeasureIdleStart, MeasureHeatStart, MeasureHeatStart]\<rparr>"

text \<open>
  The host calls \<open>start\<close> again while the engine is in HEATING, and \<open>process\<close> once
  more: \<open>restart_in_heating\<close>, ending in \<open>heater_left_on\<close>.
\<close>

definition restart_in_heating :: "event list" where
  "restart_in_heating = warm_up @ [Call_start, Call_process 1000 adc_idle]"

definition heater_left_on :: "Pid Heating" where
  "heater_left_on =
     heating_reached\<lparr>
       pid := \<lparr>pid_kp = 700, pid_ki = 200, pid_kd = 100, pid_fs = 6, pid_out_max = 40000,
               pid_integral = 0, pid_prev_error = 0\<rparr>,
       uptime_ticks := 152000, requested_power_uwpt := 0, remaining_ticks := 298000,
       requested_power_mw := 0, state := IDLE,
       adc_requests := [MeasureIdleStart, MeasureHeatStart, MeasureIdleStart]\<rparr>"

text \<open>
  The second period with a current sensor mounted in reverse, which reads - 3000 mA
  while the pen draws 3000 mA: one completed heat sample after 145000 ticks, 2000
  ticks to stabilise, one idle sample at the end of the period. The run is
  \<open>reversed_sensor_period\<close>, its last state \<open>second_period_end\<close>.
\<close>

definition reversed_sensor_period :: "event list" where
  "reversed_sensor_period =
     warm_up @ [Call_process 145000 (adc_heat (- 3000)), Call_process 2000 adc_idle,
                Call_process 2000 adc_idle]"

definition second_period_end :: "Pid Heating" where
  "second_period_end =
     heating_reached\<lparr>uptime_ticks := 300000, power_uwpt := - 5220000000000,
       energy_uwt := - 5220000000000, steady_ticks := 149000, remaining_ticks := 0,
       measurements_count := 1, cpu_voltage_mv_heat := 3300, supply_voltage_mv_heat := 12000,
       pen_current_ma_heat := 3000, pen_resistance_mo := 4000, state := STOP,
       heating_element_status := Element_HIGH_RESISTANCE, pen_sensor_status := Sensor_OK,
       heater := False,
       adc_requests := [MeasureIdleStart, MeasureHeatStart, MeasureIdleStart]\<rparr>"

text \<open>
  The third period, again with the reversed sensor, up to the end of its heat phase:
  \<open>third_period_heat\<close> continues from \<open>second_period_end\<close> and ends in
  \<open>third_heat_end\<close>.
\<close>

definition third_period_heat :: "event list" where
  "third_period_heat =
     [Call_process 0 adc_idle, Call_start, Call_process 1000 adc_idle,
      Call_process 145000 (adc_heat (- 3000))]"

definition third_heat_end :: "Pid Heating" where
  "third_heat_end =
     second_period_end\<lparr>uptime_ticks := 446000, energy_uwt := - 10440000000000,
       steady_ticks := 145000, remaining_ticks := 4000, average_requested_power := 7600,
       average_requested_power_short := 22222, state := STABILIZE,
       pen_sensor_status := Sensor_UNKNOWN,
       adc_requests :=
         [MeasureIdleStart, MeasureHeatStart, MeasureIdleStart, MeasureHeatStart]\<rparr>"

text \<open>
  The largest \<^verbatim>\<open>int\<close>, and the preset store after \<open>edit_select 0\<close> and
  \<open>edit_add INT_MAX\<close> on the initial store.
\<close>

definition INT_MAX :: int where "INT_MAX = 2147483647"

definition preset_after_overflow :: Preset where
  "preset_after_overflow = Preset_init\<lparr>temperatures := [20000, 250000], edited := 0\<rparr>"

section \<open>Properties of Preset\<close>

text \<open>
  Claim C5. In standby \<open>get_temperature\<close> returns \<open>STANDBY_TEMPERATURE\<close>, which is 0;
  out of standby it returns what the read \<^verbatim>\<open>_temperatures[_selected]\<close> returns. This
  holds in every state of the class, hence in every reachable one. Where the selected
  index lies in the array, the read is the stored preset temperature.
\<close>

theorem get_temperature_standby_or_selected:
  "(is_standby p \<longrightarrow> get_temperature p = Inr 0) \<and>
   (\<not> is_standby p \<longrightarrow> get_temperature p = temperatures_at p (selected p)) \<and>
   (\<not> is_standby p \<longrightarrow> 0 \<le> selected p \<longrightarrow> selected p < PRESETS \<longrightarrow>
      get_temperature p = Inr (temperatures p ! nat (selected p)))"
  by (simp add: is_standby_def get_temperature_def STANDBY_TEMPERATURE_def
      temperatures_at_def)

theorem get_temperature_standby_or_selected_witness:
  "is_standby Preset_init \<and> get_temperature Preset_init = Inr 0 \<and>
   \<not> is_standby (select Preset_init 1) \<and>
   get_temperature (select Preset_init 1) = Inr 250000 \<and>
   temperatures_at (select Preset_init 1) (selected (select Preset_init 1)) = Inr 250000"
  using get_temperature_standby_or_selected [of Preset_init]
    get_temperature_standby_or_selected [of "select Preset_init 1"]
  by (simp add: is_standby_def Preset_init_def select_def PRESETS_def temperatures_at_def)

text \<open>
  Claim C6, evaluated on the code. The guard of \<open>select\<close> and of \<open>edit_select\<close> needs
  an index that is both negative and at least \<open>PRESETS\<close>, so it never fires: every
  index \<open>i\<close> is accepted, in every state \<open>p\<close>. With the index 2, right after the
  array, \<open>select\<close> changes the selection and leaves standby, and \<open>edit_select\<close>
  moves the edit cursor; the temperature reads and writes that follow are outside
  the array.
\<close>

theorem select_accepts_index_outside_presets:
  "select p i = p\<lparr>selected := i, standby := False\<rparr> \<and>
   edit_select p i = p\<lparr>edited := i\<rparr> \<and>
   select Preset_init 2 = Preset_init\<lparr>selected := 2, standby := False\<rparr> \<and>
   select Preset_init 2 \<noteq> Preset_init \<and>
   get_temperature (select Preset_init 2) = Inl OutOfBounds \<and>
   edit_select Preset_init 2 = Preset_init\<lparr>edited := 2\<rparr> \<and>
   edit_select Preset_init 2 \<noteq> Preset_init \<and>
   edit_add (edit_select Preset_init 2) 1000 = Inl OutOfBounds"
  by (auto simp: select_def edit_select_def Preset_init_def PRESETS_def NO_EDIT_def
      get_temperature_def temperatures_at_def edit_add_def)

lemma wrap_int32_in_range:
  "- 2147483648 \<le> x \<Longrightarrow> x \<le> 2147483647 \<Longrightarrow> wrap_int32 x = x"
  by (simp add: wrap_int32_def)

text \<open>
  Claim C7, as the code has it. For an index \<open>i\<close> of the array and a \<open>delta\<close> whose
  sum with the old value is inside the range of a 32-bit \<^verbatim>\<open>int\<close>, the calls
  \<open>edit_select i\<close>, \<open>edit_add delta\<close>, \<open>edit_end\<close> succeed, leave the preset \<open>i\<close> at
  its old value plus \<open>delta\<close> clamped to the interval from 20000 to 400000, clear the
  edit cursor and keep every other preset temperature.
\<close>

theorem edit_round_trip:
  assumes "0 \<le> i" and "i < PRESETS" and "length (temperatures p) = nat PRESETS"
    and "- 2147483648 \<le> temperatures p ! nat i + delta"
    and "temperatures p ! nat i + delta \<le> 2147483647"
  shows "\<exists>p1. edit_add (edit_select p i) delta = Inr p1 \<and>
           temperatures (edit_end p1) ! nat i =
             min 400000 (max 20000 (temperatures p ! nat i + delta)) \<and>
           \<not> is_editing (edit_end p1) \<and>
           length (temperatures (edit_end p1)) = nat PRESETS \<and>
           (\<forall>j. j \<noteq> nat i \<longrightarrow> temperatures (edit_end p1) ! j = temperatures p ! j) \<and>
           selected (edit_end p1) = selected p \<and> standby (edit_end p1) = standby p"
proof -
  from assms(4,5) have "wrap_int32 (temperatures p ! nat i + delta) = temperatures p ! nat i + delta"
    by (rule wrap_int32_in_range)
  with assms(1,2,3) show ?thesis
    by (auto simp: edit_select_def edit_add_def edit_end_def is_editing_def NO_EDIT_def
        PRESETS_def MIN_TEMPERATURE_def MAX_TEMPERATURE_def Let_def)
qed

theorem edit_round_trip_witness:
  "(0::int) \<le> 0 \<and> (0::int) < PRESETS \<and>
   length (temperatures Preset_init) = nat PRESETS \<and>
   - 2147483648 \<le> temperatures Preset_init ! nat 0 + 1000000 \<and>
   temperatures Preset_init ! nat 0 + 1000000 \<le> 2147483647 \<and>
   (\<exists>p1. edit_add (edit_select Preset_init 0) 1000000 = Inr p1 \<and>
      temperatures (edit_end p1) ! 0 = 400000 \<and> temperatures (edit_end p1) ! 1 = 250000 \<and>
      \<not> is_editing (edit_end p1))"
proof -
  have h: "(0::int) \<le> 0" "(0::int) < PRESETS"
    "length (temperatures Preset_init) = nat PRESETS"
    "- 2147483648 \<le> temperatures Preset_init ! nat 0 + 1000000"
    "temperatures Preset_init ! nat 0 + 1000000 \<le> 2147483647"
    by (simp_all add: PRESETS_def Preset_init_def)
  from edit_round_trip [OF h]
  obtain p1 where p1: "edit_add (edit_select Preset_init 0) 1000000 = Inr p1"
    "temperatures (edit_end p1) ! nat 0 =
       min 400000 (max 20000 (temperatures Preset_init ! nat 0 + 1000000))"
    "\<not> is_editing (edit_end p1)"
    "\<forall>j. j \<noteq> nat 0 \<longrightarrow> temperatures (edit_end p1) ! j = temperatures Preset_init ! j"
    by blast
  from p1(4) have "temperatures (edit_end p1) ! 1 = temperatures Preset_init ! 1"
    by simp
  with p1 h show ?thesis
    by (auto simp: Preset_init_def)
qed

text \<open>
  Claim C7 as stated fails on the code. On the initial store, preset 0 holds 300000.
  With \<open>delta = INT_MAX\<close> the 32-bit sum is - 2147183649, below the minimum, so the
  calls leave 20000 in preset 0, while the old value plus \<open>delta\<close>, clamped, is 400000.
\<close>

theorem edit_add_overflow_clamps_low:
  "temperatures Preset_init ! 0 = 300000 \<and>
   wrap_int32 (300000 + INT_MAX) = - 2147183649 \<and>
   edit_add (edit_select Preset_init 0) INT_MAX = Inr preset_after_overflow \<and>
   temperatures (edit_end preset_after_overflow) ! 0 = 20000 \<and>
   min 400000 (max 20000 (temperatures Preset_init ! 0 + INT_MAX)) = 400000 \<and>
   temperatures (edit_end preset_after_overflow) ! 0
     \<noteq> min 400000 (max 20000 (temperatures Preset_init ! 0 + INT_MAX))"
  by (simp add: edit_select_def edit_add_def edit_end_def Preset_init_def
      preset_after_overflow_def INT_MAX_def wrap_int32_def NO_EDIT_def PRESETS_def
      MIN_TEMPERATURE_def MAX_TEMPERATURE_def Let_def)

section \<open>Evaluating the engine on concrete inputs\<close>

lemmas engine_defs =
  sim_freq_def adc_idle_def adc_heat_def
  spec_pid_def Pid_default_def Pid_set_constants_def Pid_reset_def Pid_process_def
  Heating_init_def init_def start_def start_period_def process_def advance_def
  state_stop_def state_start_def state_heating_def heating_stop_def heating_finish_def
  heating_diagnostics_def heating_element_status_of_def state_stabilize_def state_idle_def
  get_steady_ms_def get_real_pen_temperature_mc_def
  getPenSensorStatus_def getHeatingElementStatus_def ms2ticks_def cdiv_def
  wrap_int32_def wrap_int64_def
  Preset_init_def select_def edit_select_def edit_end_def edit_add_def set_standby_def
  get_temperature_def temperatures_at_def
  PRESETS_def NO_EDIT_def MIN_TEMPERATURE_def MAX_TEMPERATURE_def STANDBY_TEMPERATURE_def
  PERIOD_TIME_MS_def STANDBY_TIME_MS_def PID_K_PROPORTIONAL_def PID_K_INTEGRAL_def
  PID_K_DERIVATE_def HEATING_POWER_MAX_def IDLE_MIN_TIME_MS_def STABILIZE_TIME_MS_def
  HEATING_MIN_POWER_MW_def PEN_MAX_CURRENT_MA_def PEN_RESISTANCE_SHORTED_def
  PEN_RESISTANCE_MIN_def PEN_RESISTANCE_MAX_def PEN_RESISTANCE_BROKEN_def

text \<open>
  The weak congruence rules make the simplifier evaluate the bound value of a \<open>let\<close>
  and the scrutinee of a \<open>case\<close> before it enters the body, as the program does.
\<close>

lemma first_period_run:
  "run spec_pid sim_freq first_period (Heating_init Pid_default) = Inr first_period_end"
  by (simp add: first_period_def first_period_end_def engine_defs Let_def
      cong: let_weak_cong prod.case_cong_weak sum.case_cong_weak State.case_cong_weak)

lemma second_start_run:
  "run spec_pid sim_freq [Call_process 0 adc_idle, Call_start, Call_process 1000 adc_idle]
     first_period_end = Inr heating_reached"
  by (simp add: first_period_end_def heating_reached_def engine_defs Let_def
      cong: let_weak_cong prod.case_cong_weak sum.case_cong_weak State.case_cong_weak)

lemma run_append:
  "run P cf (xs @ ys) s =
     (case run P cf xs s of Inl e \<Rightarrow> Inl e | Inr s' \<Rightarrow> run P cf ys s')"
  by (induction xs arbitrary: s) (auto split: sum.splits)

lemma warm_up_run:
  "run spec_pid sim_freq warm_up (Heating_init Pid_default) = Inr heating_reached"
  by (simp only: warm_up_def run_append first_period_run second_start_run sum.case)

lemma heating_finished_step:
  "process sim_freq 145000 (adc_heat 6000) heating_reached = Inr (True, heating_finished)"
  by (simp add: heating_reached_def heating_finished_def engine_defs Let_def
      cong: let_weak_cong prod.case_cong_weak sum.case_cong_weak State.case_cong_weak)

text \<open>
  The tick counters are 32-bit. From \<open>heating_reached\<close>, a call of \<open>process\<close> with the
  largest \<^verbatim>\<open>unsigned\<close> delta leaves 149001 remaining ticks and measures - 1 ticks, so
  a sample of 12000 mV and 5000 mA takes 60000000 off the energy of the period and
  the engine stays in HEATING. A delta of \<open>2^31\<close> measures \<open>- 2^31\<close> ticks: the heat
  phase ends on the remaining ticks and the energy total reads - 35791 mWh.
\<close>

lemma process_wraps_tick_delta:
  "(\<exists>s'. process sim_freq 4294967295 (adc_heat 5000) heating_reached = Inr (True, s') \<and>
      remaining_ticks s' = 149001 \<and> power_uwpt s' = - 60000000 \<and>
      state s' = HEATING \<and> heater s') \<and>
   (\<exists>s'. process sim_freq 2147483648 (adc_heat 5000) heating_reached = Inr (True, s') \<and>
      remaining_ticks s' = - 2147334648 \<and> power_uwpt s' = - 128849018880000000 \<and>
      state s' = STABILIZE \<and> get_energy_mwh sim_freq s' = - 35791)"
  by (simp add: heating_reached_def get_energy_mwh_def engine_defs Let_def
      cong: let_weak_cong prod.case_cong_weak sum.case_cong_weak State.case_cong_weak)

section \<open>Properties of the engine\<close>

text \<open>
  Claim C2. When a call of \<open>process\<close> in HEATING ends the heat phase, the status of
  the heating element is the classification of the resistance \<open>pen_resistance_mo\<close>
  that the same call computed: SHORTED below 500, LOW_RESISTANCE from 500 and below
  1500, BROKEN above 100000, HIGH_RESISTANCE above 2500 and up to 100000, OK from 1500
  to 2500; the eight boundary values are classified as listed.
\<close>

theorem heating_element_status_after_heating:
  "(state s = HEATING \<longrightarrow> process cf d adc s = Inr (b, s') \<longrightarrow> state s' = STABILIZE \<longrightarrow>
      heating_element_status s' = heating_element_status_of (pen_resistance_mo s')) \<and>
   (r < 500 \<longrightarrow> heating_element_status_of r = Element_SHORTED) \<and>
   (500 \<le> r \<and> r < 1500 \<longrightarrow> heating_element_status_of r = Element_LOW_RESISTANCE) \<and>
   (r > 100000 \<longrightarrow> heating_element_status_of r = Element_BROKEN) \<and>
   (2500 < r \<and> r \<le> 100000 \<longrightarrow> heating_element_status_of r = Element_HIGH_RESISTANCE) \<and>
   (1500 \<le> r \<and> r \<le> 2500 \<longrightarrow> heating_element_status_of r = Element_OK) \<and>
   heating_element_status_of 499 = Element_SHORTED \<and>
   heating_element_status_of 500 = Element_LOW_RESISTANCE \<and>
   heating_element_status_of 1499 = Element_LOW_RESISTANCE \<and>
   heating_element_status_of 1500 = Element_OK \<and>
   heating_element_status_of 2500 = Element_OK \<and>
   heating_element_status_of 2501 = Element_HIGH_RESISTANCE \<and>
   heating_element_status_of 100000 = Element_HIGH_RESISTANCE \<and>
   heating_element_status_of 100001 = Element_BROKEN"
proof -
  have fin: "heating_element_status (heating_finish a) =
      heating_element_status_of (pen_resistance_mo (heating_finish a))" for a :: "'a Heating"
    by (simp add: heating_finish_def heating_diagnostics_def Let_def)
  have "heating_element_status s' = heating_element_status_of (pen_resistance_mo s')"
    if "state s = HEATING" "process cf d adc s = Inr (b, s')" "state s' = STABILIZE"
    using that fin
    by (auto simp: process_def advance_def state_heating_def Let_def split: if_splits)
  then show ?thesis
    by (simp add: heating_element_status_of_def PEN_RESISTANCE_SHORTED_def
        PEN_RESISTANCE_MIN_def PEN_RESISTANCE_MAX_def PEN_RESISTANCE_BROKEN_def)
qed

theorem heating_element_status_after_heating_witness:
  "state heating_reached = HEATING \<and>
   process sim_freq 145000 (adc_heat 6000) heating_reached = Inr (True, heating_finished) \<and>
   state heating_finished = STABILIZE \<and>
   pen_resistance_mo heating_finished = 2000 \<and>
   heating_element_status heating_finished = Element_OK \<and>
   heating_element_status_of 2000 = Element_OK"
  using heating_element_status_after_heating
    [of heating_reached sim_freq 145000 "adc_heat 6000" True heating_finished 2000]
    heating_finished_step
  by (simp add: heating_reached_def heating_finished_def)



text \<open>
  Claim C4. When the pen sensor status is not OK, as it is in the initial state,
  \<open>start\<close> resets the PID and requests no power: \<open>requested_power_mw\<close> and
  \<open>requested_power_uwpt\<close> are 0. When it is OK, the requested power is what
  \<open>pid_process\<close> returns for the real pen temperature and the preset's temperature.
  This holds for every PID.
\<close>
theorem start_requested_power:
  "(getPenSensorStatus s \<noteq> Sensor_OK \<longrightarrow>
      (\<exists>s'. start P cf s = Inr s' \<and> pid s' = pid_reset P (pid s) \<and>
         get_requested_power_mw s' = 0 \<and> requested_power_uwpt s' = 0 \<and> state s' = START)) \<and>
   (getPenSensorStatus s = Sensor_OK \<longrightarrow> get_temperature (preset s) = Inr target \<longrightarrow>
      (\<exists>s'. start P cf s = Inr s' \<and>
         get_requested_power_mw s' =
           fst (pid_process P (pid s) (get_real_pen_temperature_mc s) target) \<and>
         pid s' = snd (pid_process P (pid s) (get_real_pen_temperature_mc s) target) \<and>
         state s' = START)) \<and>
   getPenSensorStatus (Heating_init p0) = Sensor_UNKNOWN \<and>
   getPenSensorStatus (Heating_init p0) \<noteq> Sensor_OK"
  by (auto simp: start_def start_period_def Let_def get_requested_power_mw_def
      getPenSensorStatus_def Heating_init_def split: prod.splits)

theorem start_requested_power_witness:
  "getPenSensorStatus (Heating_init Pid_default) \<noteq> Sensor_OK \<and>
   (\<exists>s'. start spec_pid sim_freq (Heating_init Pid_default) = Inr s' \<and>
      get_requested_power_mw s' = 0 \<and> requested_power_uwpt s' = 0) \<and>
   getPenSensorStatus first_period_end = Sensor_OK \<and>
   get_temperature (preset first_period_end) = Inr 300000 \<and>
   get_real_pen_temperature_mc first_period_end = 25000 \<and>
   fst (pid_process spec_pid (pid first_period_end) 25000 300000) = 40000 \<and>
   (\<exists>s'. start spec_pid sim_freq first_period_end = Inr s' \<and>
      get_requested_power_mw s' = 40000)"
proof -
  have a: "getPenSensorStatus (Heating_init Pid_default) \<noteq> Sensor_OK"
    by (simp add: getPenSensorStatus_def Heating_init_def)
  have b: "getPenSensorStatus first_period_end = Sensor_OK"
    "get_temperature (preset first_period_end) = Inr 300000"
    "get_real_pen_temperature_mc first_period_end = 25000"
    by (simp_all add: getPenSensorStatus_def get_temperature_def temperatures_at_def
        get_real_pen_temperature_mc_def PRESETS_def first_period_end_def)
  have c: "fst (pid_process spec_pid (pid first_period_end) 25000 300000) = 40000"
    by (simp add: first_period_end_def spec_pid_def Pid_process_def cdiv_def Let_def
        cong: let_weak_cong)
  from start_requested_power
    [of "Heating_init Pid_default" spec_pid sim_freq 300000 Pid_default] a
  have d: "\<exists>s'. start spec_pid sim_freq (Heating_init Pid_default) = Inr s' \<and>
      get_requested_power_mw s' = 0 \<and> requested_power_uwpt s' = 0"
    by blast
  from start_requested_power [of first_period_end spec_pid sim_freq 300000 Pid_default] b c
  have e: "\<exists>s'. start spec_pid sim_freq first_period_end = Inr s' \<and>
      get_requested_power_mw s' = 40000"
    by auto
  from a b c d e show ?thesis
    by blast
qed

text \<open>
  Claim C1, as the code has it. In HEATING, a call of \<open>process\<close> that finds the ADC
  sample completed (and a sample count other than 0 after counting it) ends the heat
  phase, with the heater off and the state STABILIZE, if and only if, on the values
  accumulated with that sample, the average pen current exceeds 6000 mA, or the
  accumulated energy is greater than the requested energy, or the remaining ticks
  are fewer than the ticks of 10 ms; otherwise it requests another heat measurement
  and stays in HEATING. The comparison of the energies is strict. The accumulated
  values are the ones the fields hold: the sum of the currents and the tick counters
  as 32-bit values, the energy as a 64-bit value.
\<close>
theorem heating_ends_iff_stop_condition:
  assumes "state s = HEATING" and "measure_is_done adc"
    and "n = measurements_count s + 1" and "n \<noteq> 0"
    and "current_sum = wrap_int32 (pen_current_ma_heat s + get_pen_current adc)"
    and "energy = wrap_int64 (power_uwpt s
           + get_supply_voltage adc * get_pen_current adc
               * wrap_int32 (measure_ticks s + int d))"
    and "remaining = wrap_int32 (remaining_ticks s - int d)"
    and "stop = (cdiv current_sum n > 6000 \<or> energy > requested_power_uwpt s \<or>
                 remaining < cdiv (10 * cf) 1000)"
  shows "\<exists>s'. process cf d adc s = Inr (True, s') \<and>
           (state s' = STABILIZE \<and> \<not> heater s' \<longleftrightarrow> stop) \<and>
           (stop \<longrightarrow> state s' = STABILIZE \<and> \<not> heater s' \<and> adc_requests s' = adc_requests s) \<and>
           (\<not> stop \<longrightarrow> state s' = HEATING \<and> heater s' = heater s \<and>
              adc_requests s' = adc_requests s @ [MeasureHeatStart])"
  using assms
  by (simp add: process_def advance_def state_heating_def heating_stop_def Let_def
      heating_finish_def heating_diagnostics_def ms2ticks_def PEN_MAX_CURRENT_MA_def
      STABILIZE_TIME_MS_def IDLE_MIN_TIME_MS_def)

theorem heating_ends_iff_stop_condition_witness:
  "state heating_reached = HEATING \<and> measure_is_done (adc_heat 6000) \<and>
   (1::int) = measurements_count heating_reached + 1 \<and> (1::int) \<noteq> 0 \<and>
   (6000::int) =
     wrap_int32 (pen_current_ma_heat heating_reached + get_pen_current (adc_heat 6000)) \<and>
   (10440000000000::int) = wrap_int64 (power_uwpt heating_reached
      + get_supply_voltage (adc_heat 6000) * get_pen_current (adc_heat 6000)
          * wrap_int32 (measure_ticks heating_reached + int 145000)) \<and>
   (4000::int) = wrap_int32 (remaining_ticks heating_reached - int 145000) \<and>
   (cdiv 6000 1 > 6000 \<or> 10440000000000 > requested_power_uwpt heating_reached \<or>
      4000 < cdiv (10 * sim_freq) 1000) \<and>
   (\<exists>s'. process sim_freq 145000 (adc_heat 6000) heating_reached = Inr (True, s') \<and>
      state s' = STABILIZE \<and> \<not> heater s')"
proof -
  have h: "state heating_reached = HEATING" "measure_is_done (adc_heat 6000)"
    "(1::int) = measurements_count heating_reached + 1" "(1::int) \<noteq> 0"
    "(6000::int) =
       wrap_int32 (pen_current_ma_heat heating_reached + get_pen_current (adc_heat 6000))"
    "(10440000000000::int) = wrap_int64 (power_uwpt heating_reached
      + get_supply_voltage (adc_heat 6000) * get_pen_current (adc_heat 6000)
          * wrap_int32 (measure_ticks heating_reached + int 145000))"
    "(4000::int) = wrap_int32 (remaining_ticks heating_reached - int 145000)"
    by (simp_all add: heating_reached_def adc_heat_def wrap_int32_def wrap_int64_def)
  have stop: "True = (cdiv 6000 1 > 6000 \<or>
      10440000000000 > requested_power_uwpt heating_reached \<or>
      4000 < cdiv (10 * sim_freq) 1000)"
    by (simp add: heating_reached_def)
  from heating_ends_iff_stop_condition [OF h stop]
  have "\<exists>s'. process sim_freq 145000 (adc_heat 6000) heating_reached = Inr (True, s') \<and>
      state s' = STABILIZE \<and> \<not> heater s'"
    by blast
  with h stop show ?thesis
    by blast
qed

text \<open>
  Claim C1 as stated fails on the code. After \<open>warm_up\<close> the engine is in HEATING; the
  next call finds a completed sample that brings the accumulated energy to the
  requested energy exactly, with 5000 mA of current and 49000 ticks left. The energy
  is then at least the requested energy, yet the call stays in HEATING with the
  heater on.
\<close>

theorem heating_continues_on_exact_energy:
  "run spec_pid sim_freq warm_up (Heating_init Pid_default) = Inr heating_reached \<and>
   state heating_reached = HEATING \<and> measure_is_done (adc_heat 5000) \<and>
   process sim_freq 100000 (adc_heat 5000) heating_reached = Inr (True, on_target) \<and>
   power_uwpt on_target \<ge> requested_power_uwpt on_target \<and>
   state on_target = HEATING \<and> heater on_target"
proof -
  have "process sim_freq 100000 (adc_heat 5000) heating_reached = Inr (True, on_target)"
    by (simp add: heating_reached_def on_target_def engine_defs Let_def
        cong: let_weak_cong prod.case_cong_weak sum.case_cong_weak State.case_cong_weak)
  then show ?thesis
    using warm_up_run
    by (simp add: heating_reached_def on_target_def adc_heat_def)
qed


section \<open>Invariants of runs\<close>

subsection \<open>What each operation does to the fields the invariants read\<close>

lemma advance_fields:
  "state (advance d s) = state s" "heater (advance d s) = heater s"
  "measurements_count (advance d s) = measurements_count s"
  by (simp_all add: advance_def)

lemma state_stop_fields:
  "state (state_stop cf s) = state s" "heater (state_stop cf s) = heater s"
  "measurements_count (state_stop cf s) = measurements_count s"
  by (simp_all add: state_stop_def Let_def)

lemma state_start_fields:
  "state (state_start s) = IDLE \<or> state (state_start s) = HEATING"
  "state (state_start s) = IDLE \<Longrightarrow> heater (state_start s) = heater s"
  "measurements_count (state_start s) = 0"
  by (simp_all add: state_start_def Let_def split: if_splits)

lemma state_stabilize_fields:
  "state s = STABILIZE \<Longrightarrow>
     state (state_stabilize cf d s) = STABILIZE \<or> state (state_stabilize cf d s) = IDLE"
  "heater (state_stabilize cf d s) = heater s"
  "state s = STABILIZE \<Longrightarrow> state (state_stabilize cf d s) = IDLE \<Longrightarrow>
     measurements_count (state_stabilize cf d s) = 0"
  by (simp_all add: state_stabilize_def Let_def split: if_splits)

lemma state_idle_fields:
  assumes "state_idle adc s = Inr s'" and "state s = IDLE"
  shows "state s' = IDLE \<or> state s' = STOP"
    and "heater s' = heater s"
    and "0 \<le> measurements_count s \<Longrightarrow> 0 \<le> measurements_count s'"
    and "0 \<le> measurements_count s \<Longrightarrow> state s' = STOP \<Longrightarrow> 1 \<le> measurements_count s'"
  using assms
  by (auto simp: state_idle_def Let_def split: if_splits)

lemma state_idle_returns:
  "0 \<le> measurements_count s \<Longrightarrow> \<exists>s'. state_idle adc s = Inr s'"
  by (simp add: state_idle_def Let_def)

lemma state_heating_fields:
  assumes "state_heating cf d adc s = Inr s'" and "state s = HEATING"
  shows "state s' = HEATING \<or> state s' = STABILIZE"
    and "state s' = STABILIZE \<Longrightarrow> \<not> heater s'"
    and "state s' = HEATING \<Longrightarrow> heater s' = heater s"
    and "0 \<le> measurements_count s \<Longrightarrow> 0 \<le> measurements_count s'"
    and "0 \<le> measurements_count s \<Longrightarrow> state s' = STABILIZE \<Longrightarrow> 1 \<le> measurements_count s'"
  using assms
  by (auto simp: state_heating_def heating_finish_def heating_diagnostics_def Let_def
      split: if_splits)

lemma state_heating_returns:
  "0 \<le> measurements_count s \<Longrightarrow> \<exists>s'. state_heating cf d adc s = Inr s'"
  by (simp add: state_heating_def Let_def)

lemma state_heating_stop_branch:
  assumes "state_heating cf d adc s = Inr s'" and "state s = HEATING"
    and "state s' \<noteq> HEATING"
  shows "\<exists>a. \<not> heater a \<and> s' = heating_diagnostics a"
proof -
  from assms obtain x where "s' = heating_finish x"
    by (auto simp: state_heating_def Let_def split: if_splits)
  then have "\<not> heater (x\<lparr>heater := False\<rparr>) \<and> s' = heating_diagnostics (x\<lparr>heater := False\<rparr>)"
    by (simp add: heating_finish_def)
  then show ?thesis ..
qed

lemma start_fields:
  assumes "start P cf s = Inr s'"
  shows "state s' = START" and "heater s' = heater s"
    and "measurements_count s' = measurements_count s"
  using assms
  by (auto simp: start_def start_period_def Let_def split: if_splits sum.splits prod.splits)


subsection \<open>One call of process\<close>

lemma process_cases:
  assumes "process cf d adc s = Inr (b, s')"
  obtains (stop) "state s = STOP" "s' = state_stop cf (advance d s)"
    | (start) "state s = START" "s' = state_start (advance d s)"
    | (heating) "state s = HEATING" "state_heating cf d adc (advance d s) = Inr s'"
    | (stabilize) "state s = STABILIZE" "s' = state_stabilize cf d (advance d s)"
    | (idle) "state s = IDLE" "state_idle adc (advance d s) = Inr s'"
  using assms
  by (cases "state s") (auto simp: process_def Let_def advance_fields split: sum.splits)

lemma process_heater_inv:
  assumes "process cf d adc s = Inr (b, s')" and "heater s \<longrightarrow> state s = HEATING"
  shows "heater s' \<longrightarrow> state s' = HEATING"
  using assms(1)
proof (cases rule: process_cases)
  case stop
  with assms(2) show ?thesis by (simp add: state_stop_fields advance_fields)
next
  case start
  with assms(2) state_start_fields(1,2) [of "advance d s"] show ?thesis
    by (auto simp: advance_fields)
next
  case heating
  with state_heating_fields(1,2) [OF heating(2)] show ?thesis
    by (auto simp: advance_fields)
next
  case stabilize
  with assms(2) show ?thesis by (simp add: state_stabilize_fields advance_fields)
next
  case idle
  with assms(2) state_idle_fields(2) [OF idle(2)] show ?thesis
    by (simp add: advance_fields)
qed

lemma process_leaves_heating:
  assumes "process cf d adc s = Inr (b, s')" and "state s = HEATING" and "state s' \<noteq> HEATING"
  shows "state s' = STABILIZE \<and> \<not> heater s' \<and> (\<exists>a. \<not> heater a \<and> s' = heating_diagnostics a)"
  using assms(1)
proof (cases rule: process_cases)
  case heating
  from heating(1) have "state (advance d s) = HEATING"
    by (simp add: advance_fields)
  from state_heating_stop_branch [OF heating(2) this assms(3)]
    state_heating_fields(1,2) [OF heating(2) this] assms(3)
  show ?thesis by auto
qed (use assms(2) in simp_all)

lemma process_count_inv:
  assumes "process cf d adc s = Inr (b, s')"
    and "state s = HEATING \<or> state s = IDLE \<longrightarrow> 0 \<le> measurements_count s"
  shows "state s' = HEATING \<or> state s' = IDLE \<longrightarrow> 0 \<le> measurements_count s'"
  using assms(1)
proof (cases rule: process_cases)
  case stop
  then show ?thesis by (simp add: state_stop_fields advance_fields)
next
  case start
  then show ?thesis by (simp add: state_start_fields)
next
  case heating
  with assms(2) state_heating_fields(4) [OF heating(2)] show ?thesis
    by (simp add: advance_fields)
next
  case stabilize
  with state_stabilize_fields(1,3) [of "advance d s" cf d] show ?thesis
    by (auto simp: advance_fields)
next
  case idle
  with assms(2) state_idle_fields(3) [OF idle(2)] show ?thesis
    by (simp add: advance_fields)
qed

lemma process_returns:
  assumes "state s = HEATING \<or> state s = IDLE \<longrightarrow> 0 \<le> measurements_count s"
  shows "\<exists>b s'. process cf d adc s = Inr (b, s')"
proof (cases "state s")
  case HEATING
  with assms state_heating_returns [of "advance d s" cf d adc] show ?thesis
    by (auto simp: process_def Let_def advance_fields)
next
  case IDLE
  with assms state_idle_returns [of "advance d s" adc] show ?thesis
    by (auto simp: process_def Let_def advance_fields)
qed (auto simp: process_def Let_def advance_fields)

lemma process_count_at_finalization:
  assumes "process cf d adc s = Inr (b, s')"
    and "state s = HEATING \<or> state s = IDLE \<longrightarrow> 0 \<le> measurements_count s"
    and "state s = HEATING \<and> state s' = STABILIZE \<or> state s = IDLE \<and> state s' = STOP"
  shows "1 \<le> measurements_count s'"
  using assms(1)
proof (cases rule: process_cases)
  case heating
  with assms(2,3) state_heating_fields(5) [OF heating(2)] show ?thesis
    by (simp add: advance_fields)
next
  case idle
  with assms(2,3) state_idle_fields(4) [OF idle(2)] show ?thesis
    by (simp add: advance_fields)
qed (use assms(3) in simp_all)

subsection \<open>One call of any kind\<close>

lemma step_cases:
  assumes "step P cf ev s = Inr s'"
  obtains (process) d adc b where "ev = Call_process d adc" "process cf d adc s = Inr (b, s')"
    | (start) "ev = Call_start" "start P cf s = Inr s'"
    | (other) "ev \<noteq> Call_start" "state s' = state s" "heater s' = heater s"
        "measurements_count s' = measurements_count s"
  using assms
  by (cases ev) (auto simp: init_def split: sum.splits)


subsection \<open>Runs\<close>

lemma run_heater_inv:
  assumes "run P cf evs s = Inr s'" and "start_outside_heating P cf evs s"
    and "heater s \<longrightarrow> state s = HEATING"
  shows "heater s' \<longrightarrow> state s' = HEATING"
  using assms
proof (induction evs arbitrary: s)
  case Nil
  then show ?case by simp
next
  case (Cons ev evs)
  from Cons.prems(1) obtain s1 where s1: "step P cf ev s = Inr s1" "run P cf evs s1 = Inr s'"
    by (auto split: sum.splits)
  from Cons.prems(2) s1(1) have ok: "ev = Call_start \<longrightarrow> state s \<noteq> HEATING"
    "start_outside_heating P cf evs s1"
    by (auto split: event.splits)
  from s1(1) have "heater s1 \<longrightarrow> state s1 = HEATING"
  proof (cases rule: step_cases)
    case (process d adc b)
    from process_heater_inv [OF process(2) Cons.prems(3)] show ?thesis .
  next
    case start
    with ok(1) Cons.prems(3) start_fields(1,2) [OF start(2)] show ?thesis
      by auto
  next
    case other
    with Cons.prems(3) show ?thesis by simp
  qed
  from Cons.IH [OF s1(2) ok(2) this] show ?case .
qed

lemma run_count_inv:
  assumes "run P cf evs s = Inr s'"
    and "state s = HEATING \<or> state s = IDLE \<longrightarrow> 0 \<le> measurements_count s"
  shows "state s' = HEATING \<or> state s' = IDLE \<longrightarrow> 0 \<le> measurements_count s'"
  using assms
proof (induction evs arbitrary: s)
  case Nil
  then show ?case by simp
next
  case (Cons ev evs)
  from Cons.prems(1) obtain s1 where s1: "step P cf ev s = Inr s1" "run P cf evs s1 = Inr s'"
    by (auto split: sum.splits)
  from s1(1) have "state s1 = HEATING \<or> state s1 = IDLE \<longrightarrow> 0 \<le> measurements_count s1"
  proof (cases rule: step_cases)
    case (process d adc b)
    from process_count_inv [OF process(2) Cons.prems(2)] show ?thesis .
  next
    case start
    with start_fields(1) [OF start(2)] show ?thesis by simp
  next
    case other
    with Cons.prems(2) show ?thesis by simp
  qed
  from Cons.IH [OF s1(2) this] show ?case .
qed

lemma step_div_by_zero:
  assumes "step P cf ev s = Inl DivByZero"
  shows "\<exists>d adc. ev = Call_process d adc \<and> process cf d adc s = Inl DivByZero"
  using assms
  by (cases ev)
    (auto simp: start_def get_temperature_def temperatures_at_def edit_add_def Let_def
      split: sum.splits if_splits prod.splits)

lemma run_no_div_by_zero:
  assumes "state s = HEATING \<or> state s = IDLE \<longrightarrow> 0 \<le> measurements_count s"
  shows "run P cf evs s \<noteq> Inl DivByZero"
  using assms
proof (induction evs arbitrary: s)
  case Nil
  then show ?case by simp
next
  case (Cons ev evs)
  show ?case
  proof (cases "step P cf ev s")
    case (Inl e)
    have "e \<noteq> DivByZero"
    proof
      assume "e = DivByZero"
      with Inl step_div_by_zero [of P cf ev s]
      obtain d adc where "process cf d adc s = Inl DivByZero" by auto
      with process_returns [OF Cons.prems, of cf d adc] show False by auto
    qed
    with Inl show ?thesis by simp
  next
    case (Inr s1)
    then have "run P cf [ev] s = Inr s1" by simp
    from run_count_inv [OF this Cons.prems] Cons.IH [of s1] Inr show ?thesis by simp
  qed
qed

section \<open>Properties of runs\<close>

lemma restart_in_heating_run:
  "run spec_pid sim_freq [Call_start, Call_process 1000 adc_idle] heating_reached =
     Inr heater_left_on"
  by (simp add: heating_reached_def heater_left_on_def engine_defs Let_def
      cong: let_weak_cong prod.case_cong_weak sum.case_cong_weak State.case_cong_weak)

lemma reversed_sensor_run:
  "run spec_pid sim_freq
     [Call_process 145000 (adc_heat (- 3000)), Call_process 2000 adc_idle,
      Call_process 2000 adc_idle] heating_reached = Inr second_period_end"
  by (simp add: heating_reached_def second_period_end_def engine_defs Let_def
      cong: let_weak_cong prod.case_cong_weak sum.case_cong_weak State.case_cong_weak)

lemma warm_up_start_outside_heating:
  "start_outside_heating spec_pid sim_freq warm_up (Heating_init Pid_default)"
  by (simp add: warm_up_def first_period_def engine_defs Let_def
      cong: let_weak_cong prod.case_cong_weak sum.case_cong_weak State.case_cong_weak)

text \<open>
  Claim C8, as the code has it. In a run from the initial state in which \<open>start\<close> is
  never called while the engine is in HEATING, the heater is on only in HEATING: the
  engine is never in STABILIZE, IDLE, STOP or START with the heater on. And whenever
  a call of \<open>process\<close> takes the engine out of HEATING, it takes it to STABILIZE with
  the heater off, and the diagnostics of that call were computed from a state in
  which the heater was off already.
\<close>

theorem heater_on_only_in_heating:
  assumes "start_outside_heating P cf evs (Heating_init p0)"
    and "run P cf evs (Heating_init p0) = Inr s"
  shows "(heater s \<longrightarrow> state s = HEATING) \<and>
         (state s = STABILIZE \<or> state s = IDLE \<or> state s = STOP \<longrightarrow> \<not> heater s) \<and>
         (\<forall>d adc b s'. state s = HEATING \<longrightarrow> process cf d adc s = Inr (b, s') \<longrightarrow>
            state s' \<noteq> HEATING \<longrightarrow>
            state s' = STABILIZE \<and> \<not> heater s' \<and>
            (\<exists>a. \<not> heater a \<and> s' = heating_diagnostics a))"
proof -
  have "heater (Heating_init p0) \<longrightarrow> state (Heating_init p0) = HEATING"
    by (simp add: Heating_init_def)
  from run_heater_inv [OF assms(2) assms(1) this]
  have inv: "heater s \<longrightarrow> state s = HEATING" .
  then have "state s = STABILIZE \<or> state s = IDLE \<or> state s = STOP \<longrightarrow> \<not> heater s"
    by auto
  with inv process_leaves_heating [of cf _ _ s] show ?thesis
    by blast
qed

theorem heater_on_only_in_heating_witness:
  "start_outside_heating spec_pid sim_freq warm_up (Heating_init Pid_default) \<and>
   run spec_pid sim_freq warm_up (Heating_init Pid_default) = Inr heating_reached \<and>
   heater heating_reached \<and> state heating_reached = HEATING \<and>
   process sim_freq 145000 (adc_heat 6000) heating_reached = Inr (True, heating_finished) \<and>
   state heating_finished = STABILIZE \<and> \<not> heater heating_finished"
  using heater_on_only_in_heating [OF warm_up_start_outside_heating warm_up_run]
    warm_up_start_outside_heating warm_up_run heating_finished_step
  by (simp add: heating_reached_def heating_finished_def)

text \<open>
  Claim C8 as stated fails on the code. After \<open>warm_up\<close> the engine is in HEATING with
  the heater on. A call of \<open>start\<close> at that moment finds the sensor status UNKNOWN,
  requests no power and sets the state to START; the next \<open>process\<close> goes from START
  to IDLE, and nothing has turned the heater off.
\<close>

theorem heater_on_in_idle_after_restart:
  "run spec_pid sim_freq warm_up (Heating_init Pid_default) = Inr heating_reached \<and>
   state heating_reached = HEATING \<and> heater heating_reached \<and>
   run spec_pid sim_freq restart_in_heating (Heating_init Pid_default) = Inr heater_left_on \<and>
   state heater_left_on = IDLE \<and> heater heater_left_on"
proof -
  have "run spec_pid sim_freq restart_in_heating (Heating_init Pid_default) = Inr heater_left_on"
    by (simp only: restart_in_heating_def run_append warm_up_run restart_in_heating_run
        sum.case)
  with warm_up_run show ?thesis
    by (simp add: heating_reached_def heater_left_on_def)
qed

text \<open>
  Claim C9, evaluated on the code. The energy total is to count what the pen has
  consumed and never go down. At the end of the first period the energy reads 0 mWh.
  In the second period, run as the host runs it, the pen draws 3000 mA through a
  current sensor mounted in reverse, which the handler allows for when it computes
  the resistance. The sample's product of voltage and current is negative, the heat
  phase adds a negative amount to the total, and at the end of the period the energy
  reads - 1 mWh. The heat phase of the third period takes it to - 2 mWh.
\<close>

theorem energy_decreases_with_reversed_sensor:
  "run spec_pid sim_freq first_period (Heating_init Pid_default) = Inr first_period_end \<and>
   state first_period_end = STOP \<and>
   get_energy_mwh sim_freq first_period_end = 0 \<and>
   run spec_pid sim_freq reversed_sensor_period (Heating_init Pid_default)
     = Inr second_period_end \<and>
   state second_period_end = STOP \<and>
   get_energy_mwh sim_freq second_period_end = - 1 \<and>
   get_energy_mwh sim_freq second_period_end < get_energy_mwh sim_freq first_period_end \<and>
   run spec_pid sim_freq (reversed_sensor_period @ third_period_heat)
     (Heating_init Pid_default) = Inr third_heat_end \<and>
   state third_heat_end = STABILIZE \<and>
   get_energy_mwh sim_freq third_heat_end = - 2 \<and>
   get_energy_mwh sim_freq third_heat_end < get_energy_mwh sim_freq second_period_end"
proof -
  have a: "run spec_pid sim_freq reversed_sensor_period (Heating_init Pid_default)
      = Inr second_period_end"
    by (simp only: reversed_sensor_period_def run_append warm_up_run reversed_sensor_run
        sum.case)
  have "run spec_pid sim_freq third_period_heat second_period_end = Inr third_heat_end"
    by (simp add: third_period_heat_def third_heat_end_def second_period_end_def
        heating_reached_def engine_defs Let_def
        cong: let_weak_cong prod.case_cong_weak sum.case_cong_weak State.case_cong_weak)
  with a have b: "run spec_pid sim_freq (reversed_sensor_period @ third_period_heat)
      (Heating_init Pid_default) = Inr third_heat_end"
    by (simp only: run_append sum.case)
  have "get_energy_mwh sim_freq first_period_end = 0"
    "get_energy_mwh sim_freq second_period_end = - 1"
    "get_energy_mwh sim_freq third_heat_end = - 2"
    "state first_period_end = STOP" "state second_period_end = STOP"
    "state third_heat_end = STABILIZE"
    by (simp_all add: get_energy_mwh_def first_period_end_def second_period_end_def
        third_heat_end_def heating_reached_def sim_freq_def cdiv_def)
  with first_period_run a b show ?thesis
    by simp
qed

text \<open>
  Claim C10. After any run from the initial state, whatever calls it is made of, a
  call of \<open>process\<close> returns: none of its divisions by \<open>measurements_count\<close> divides
  by zero. When that call ends the heat phase or the idle phase, the count it
  divides by is at least 1. No run from the initial state ends in a division by zero.
\<close>

theorem measurements_count_positive_when_dividing:
  "run P cf evs (Heating_init p0) \<noteq> Inl DivByZero \<and>
   (run P cf evs (Heating_init p0) = Inr s \<longrightarrow>
      (\<exists>b s'. process cf d adc s = Inr (b, s')) \<and>
      (\<forall>b s'. process cf d adc s = Inr (b, s') \<longrightarrow>
         state s = HEATING \<and> state s' = STABILIZE \<or> state s = IDLE \<and> state s' = STOP \<longrightarrow>
         1 \<le> measurements_count s'))"
proof -
  have init: "state (Heating_init p0) = HEATING \<or> state (Heating_init p0) = IDLE \<longrightarrow>
      0 \<le> measurements_count (Heating_init p0)"
    by (simp add: Heating_init_def)
  have "(\<exists>b s'. process cf d adc s = Inr (b, s')) \<and>
      (\<forall>b s'. process cf d adc s = Inr (b, s') \<longrightarrow>
         state s = HEATING \<and> state s' = STABILIZE \<or> state s = IDLE \<and> state s' = STOP \<longrightarrow>
         1 \<le> measurements_count s')"
    if r: "run P cf evs (Heating_init p0) = Inr s"
  proof -
    from run_count_inv [OF r init]
    have inv: "state s = HEATING \<or> state s = IDLE \<longrightarrow> 0 \<le> measurements_count s" .
    from process_returns [OF inv] process_count_at_finalization [OF _ inv] show ?thesis
      by blast
  qed
  with run_no_div_by_zero [OF init] show ?thesis
    by blast
qed

theorem measurements_count_positive_when_dividing_witness:
  "run spec_pid sim_freq warm_up (Heating_init Pid_default) = Inr heating_reached \<and>
   state heating_reached = HEATING \<and>
   process sim_freq 145000 (adc_heat 6000) heating_reached = Inr (True, heating_finished) \<and>
   state heating_finished = STABILIZE \<and>
   measurements_count heating_finished = 1 \<and> 1 \<le> measurements_count heating_finished"
  using measurements_count_positive_when_dividing
    [of spec_pid sim_freq warm_up Pid_default heating_reached 145000 "adc_heat 6000"]
    warm_up_run heating_finished_step
  by (simp add: heating_reached_def heating_finished_def)

end
